theory Spec2Isabelle
  imports Main "HOL-Library.Word"
begin

unbundle bit_operations_syntax

section \<open>Data model of \<^verbatim>\<open>architecture/data/files.py\<close>\<close>

text \<open>
  Python \<^verbatim>\<open>bytes\<close> are lists of 8-bit words; Python \<^verbatim>\<open>str\<close> values are
  \<^typ>\<open>string\<close>s (the model covers ASCII text, which is all the source's literals use).
\<close>

type_synonym byte = "8 word"
type_synonym bytes = "byte list"

text \<open>
  The exceptions the source raises itself (\<^verbatim>\<open>FileNotFoundError\<close>, \<^verbatim>\<open>ValueError\<close>,
  \<^verbatim>\<open>ImportError\<close>) and those that the libraries it calls raise. The specification's
  error kinds name them as follows: \<^verbatim>\<open>NotFoundError\<close> is \<^verbatim>\<open>FileNotFoundError\<close>;
  \<^verbatim>\<open>InvalidArgumentError\<close> and \<^verbatim>\<open>TypeResolutionError\<close> are both \<^verbatim>\<open>ValueError\<close>;
  \<^verbatim>\<open>MissingCapabilityError\<close> is \<^verbatim>\<open>ImportError\<close>; \<^verbatim>\<open>DecodeError\<close> is
  \<^verbatim>\<open>binascii.Error\<close>, \<^verbatim>\<open>gzip.BadGzipFile\<close> or \<^verbatim>\<open>KeyError\<close>.
\<close>

datatype py_error =
    FileNotFoundError
  | ValueError
  | ImportError
  | OSError
  | KeyError
  | BinasciiError
  | BadGzipFile
  | RuntimeError
  | AttributeError
  | TimeoutError
  | LibraryError string

text \<open>\<^verbatim>\<open>class FileExtension(str, Enum)\<close>: eight members, each with a string value.\<close>

datatype FileExtension = PDF | JSON | PNG | JPEG | JPG | HTML | TXT | MD

fun extension_value :: "FileExtension \<Rightarrow> string" where
  "extension_value PDF = ''pdf''"
| "extension_value JSON = ''json''"
| "extension_value PNG = ''png''"
| "extension_value JPEG = ''jpeg''"
| "extension_value JPG = ''jpg''"
| "extension_value HTML = ''html''"
| "extension_value TXT = ''txt''"
| "extension_value MD = ''md''"

fun member_name :: "FileExtension \<Rightarrow> string" where
  "member_name PDF = ''PDF''"
| "member_name JSON = ''JSON''"
| "member_name PNG = ''PNG''"
| "member_name JPEG = ''JPEG''"
| "member_name JPG = ''JPG''"
| "member_name HTML = ''HTML''"
| "member_name TXT = ''TXT''"
| "member_name MD = ''MD''"

definition all_extensions :: "FileExtension list" where
  "all_extensions = [PDF, JSON, PNG, JPEG, JPG, HTML, TXT, MD]"

text \<open>\<^verbatim>\<open>FileExtension(value)\<close>: lookup by value, \<^verbatim>\<open>ValueError\<close> when no member has it.\<close>

definition FileExtension_of_value :: "string \<Rightarrow> py_error + FileExtension" where
  "FileExtension_of_value s =
     (case find (\<lambda>e. extension_value e = s) all_extensions of
        None \<Rightarrow> Inl ValueError
      | Some e \<Rightarrow> Inr e)"

text \<open>\<^verbatim>\<open>FileExtension.__members__\<close>: the mapping from member names to members.\<close>

definition FileExtension_members :: "string \<rightharpoonup> FileExtension" where
  "FileExtension_members s = find (\<lambda>e. member_name e = s) all_extensions"

text \<open>\<^verbatim>\<open>class RawFile(msgspec.Struct, frozen=True, gc=False)\<close> with its two fields.\<close>

record RawFile =
  contents :: bytes
  extension :: FileExtension

definition from_bytes :: "bytes \<Rightarrow> FileExtension \<Rightarrow> RawFile" where
  "from_bytes data ext = \<lparr>contents = data, extension = ext\<rparr>"

subsection \<open>Base64 (\<^verbatim>\<open>base64.b64decode\<close>, \<^verbatim>\<open>base64.b64encode\<close>)\<close>

text \<open>
  \<^verbatim>\<open>from_base64\<close> calls the standard library's \<^verbatim>\<open>base64.b64decode\<close>, which is
  \<^verbatim>\<open>binascii.a2b_base64\<close> in its lenient mode. The decoder below follows CPython's loop:
  \<^verbatim>\<open>quad_pos\<close> counts the sextets of the current group, \<^verbatim>\<open>leftchar\<close> holds the bits not
  yet written, \<^verbatim>\<open>pads\<close> counts the \<^verbatim>\<open>=\<close> signs seen in a row. Characters outside the
  alphabet are skipped, enough padding ends the input, an unfinished group is
  \<^verbatim>\<open>binascii.Error\<close>.
\<close>

definition b64_alphabet :: string where
  "b64_alphabet = ''ABCDEFGHIJKLMNOPQRSTUVWXYZabcdefghijklmnopqrstuvwxyz0123456789+/''"

definition table_b2a_base64 :: "byte \<Rightarrow> char" where
  "table_b2a_base64 n = b64_alphabet ! unat (n AND 0x3f)"

definition table_a2b_base64 :: "char \<rightharpoonup> byte" where
  "table_a2b_base64 = map_of (zip b64_alphabet (map of_nat [0..<64]))"

text \<open>The standard encoding (RFC 4648): three bytes become four characters, padded with \<^verbatim>\<open>=\<close>.\<close>

fun b64encode :: "bytes \<Rightarrow> string" where
  "b64encode [] = []"
| "b64encode [a] =
     [table_b2a_base64 (drop_bit 2 a),
      table_b2a_base64 (push_bit 4 (a AND 3)),
      CHR ''='', CHR ''='']"
| "b64encode [a, b] =
     [table_b2a_base64 (drop_bit 2 a),
      table_b2a_base64 (push_bit 4 (a AND 3) OR drop_bit 4 b),
      table_b2a_base64 (push_bit 2 (b AND 0xf)),
      CHR ''='']"
| "b64encode (a # b # c # rest) =
     [table_b2a_base64 (drop_bit 2 a),
      table_b2a_base64 (push_bit 4 (a AND 3) OR drop_bit 4 b),
      table_b2a_base64 (push_bit 2 (b AND 0xf) OR drop_bit 6 c),
      table_b2a_base64 (c AND 0x3f)] @ b64encode rest"

fun a2b_base64 :: "string \<Rightarrow> nat \<Rightarrow> byte \<Rightarrow> nat \<Rightarrow> bytes \<Rightarrow> py_error + bytes" where
  "a2b_base64 [] quad_pos leftchar pads out =
     (if quad_pos \<noteq> 0 then Inl BinasciiError else Inr out)"
| "a2b_base64 (c # cs) quad_pos leftchar pads out =
     (if c = CHR ''='' then
        (if quad_pos \<ge> 2 \<and> quad_pos + (pads + 1) \<ge> 4 then Inr out
         else a2b_base64 cs quad_pos leftchar (if quad_pos \<ge> 2 then pads + 1 else pads) out)
      else
        (case table_a2b_base64 c of
           None \<Rightarrow> a2b_base64 cs quad_pos leftchar pads out
         | Some this_ch \<Rightarrow>
             (if quad_pos = 0 then a2b_base64 cs 1 this_ch 0 out
              else if quad_pos = 1 then
                a2b_base64 cs 2 (this_ch AND 0x0f) 0
                  (out @ [push_bit 2 leftchar OR drop_bit 4 this_ch])
              else if quad_pos = 2 then
                a2b_base64 cs 3 (this_ch AND 0x03) 0
                  (out @ [push_bit 4 leftchar OR drop_bit 2 this_ch])
              else a2b_base64 cs 0 0 0 (out @ [push_bit 6 leftchar OR this_ch]))))"

text \<open>
  \<^verbatim>\<open>base64.b64decode(s)\<close> on a \<^verbatim>\<open>str\<close>: \<^verbatim>\<open>s.encode('ascii')\<close> first
  (\<^verbatim>\<open>ValueError\<close> on a non-ASCII character), then the decoder.
\<close>

definition b64decode :: "string \<Rightarrow> py_error + bytes" where
  "b64decode s =
     (if list_all (\<lambda>c. of_char c < (128::nat)) s then a2b_base64 s 0 0 0 []
      else Inl ValueError)"

definition from_base64 :: "string \<Rightarrow> FileExtension \<Rightarrow> py_error + RawFile" where
  "from_base64 b64_string ext =
     (case b64decode b64_string of
        Inl e \<Rightarrow> Inl e
      | Inr data \<Rightarrow> Inr (from_bytes data ext))"

subsection \<open>Strings and paths\<close>

text \<open>\<^verbatim>\<open>str.upper()\<close> and \<^verbatim>\<open>str.lower()\<close> on ASCII text.\<close>

definition ascii_upper :: "char \<Rightarrow> char" where
  "ascii_upper c =
     (let n = (of_char c :: nat) in if 97 \<le> n \<and> n \<le> 122 then char_of (n - 32) else c)"

definition ascii_lower :: "char \<Rightarrow> char" where
  "ascii_lower c =
     (let n = (of_char c :: nat) in if 65 \<le> n \<and> n \<le> 90 then char_of (n + 32) else c)"

definition str_upper :: "string \<Rightarrow> string" where
  "str_upper s = map ascii_upper s"

definition str_lower :: "string \<Rightarrow> string" where
  "str_lower s = map ascii_lower s"

text \<open>\<^verbatim>\<open>s.split(c)\<close>, and its first field \<^verbatim>\<open>s.split(c)[0]\<close>.\<close>

fun split_on :: "char \<Rightarrow> string \<Rightarrow> string list" where
  "split_on c [] = [[]]"
| "split_on c (x # xs) =
     (if x = c then [] # split_on c xs
      else (case split_on c xs of
              [] \<Rightarrow> [[x]]
            | w # ws \<Rightarrow> (x # w) # ws))"

definition first_field :: "char \<Rightarrow> string \<Rightarrow> string" where
  "first_field c s = takeWhile (\<lambda>x. x \<noteq> c) s"

text \<open>\<^verbatim>\<open>s.lstrip(".")\<close>.\<close>

definition lstrip_dot :: "string \<Rightarrow> string" where
  "lstrip_dot s = dropWhile (\<lambda>x. x = CHR ''.'') s"

text \<open>
  The part of \<open>s\<close> after its last \<open>c\<close> (all of \<open>s\<close> when there is none), and the
  part before its last \<open>c\<close>.
\<close>

definition after_last :: "char \<Rightarrow> string \<Rightarrow> string" where
  "after_last c s = rev (takeWhile (\<lambda>x. x \<noteq> c) (rev s))"

definition before_last :: "char \<Rightarrow> string \<Rightarrow> string" where
  "before_last c s = rev (drop 1 (dropWhile (\<lambda>x. x \<noteq> c) (rev s)))"

text \<open>
  \<^verbatim>\<open>pathlib.PurePosixPath(p).name\<close>: the last component, where empty components and
  \<^verbatim>\<open>.\<close> components are dropped when the path is parsed.
\<close>

definition path_name :: "string \<Rightarrow> string" where
  "path_name p =
     (case filter (\<lambda>s. s \<noteq> [] \<and> s \<noteq> ''.'') (split_on CHR ''/'' p) of
        [] \<Rightarrow> []
      | q # qs \<Rightarrow> last (q # qs))"

text \<open>
  \<^verbatim>\<open>pathlib.PurePosixPath(p).suffix\<close>: with \<^verbatim>\<open>i = name.rfind('.')\<close>, the suffix is
  \<^verbatim>\<open>name[i:]\<close> when \<^verbatim>\<open>0 < i < len(name) - 1\<close> and empty otherwise.
\<close>

definition path_suffix :: "string \<Rightarrow> string" where
  "path_suffix p =
     (let name = path_name p in
      if CHR ''.'' \<in> set name \<and> before_last CHR ''.'' name \<noteq> [] \<and> after_last CHR ''.'' name \<noteq> []
      then CHR ''.'' # after_last CHR ''.'' name
      else [])"

subsection \<open>Content types and MIME types\<close>

text \<open>\<^verbatim>\<open>RawFile._get_extension_from_content_type\<close>: a dictionary lookup.\<close>

definition content_type_map :: "string \<rightharpoonup> FileExtension" where
  "content_type_map = map_of
     [(''application/pdf'', PDF),
      (''application/json'', JSON),
      (''image/png'', PNG),
      (''image/jpeg'', JPEG),
      (''image/jpg'', JPG),
      (''text/html'', HTML),
      (''text/plain'', TXT)]"

definition get_extension_from_content_type :: "string \<Rightarrow> FileExtension option" where
  "get_extension_from_content_type content_type = content_type_map content_type"

text \<open>
  An f-string formats a member of a \<^verbatim>\<open>(str, Enum)\<close> class with \<^verbatim>\<open>Enum.__str__\<close>
  (Python 3.11 and later; the repository needs 3.12 for its generic function syntax):
  the class name, a dot and the member's name.
\<close>

definition format_FileExtension :: "FileExtension \<Rightarrow> string" where
  "format_FileExtension e = ''FileExtension.'' @ member_name e"

text \<open>
  \<^verbatim>\<open>posixpath.splitext(p)[1]\<close>: the extension starts at the last dot of the last
  component, unless only dots precede it there.
\<close>

definition splitext_ext :: "string \<Rightarrow> string" where
  "splitext_ext p =
     (let name = after_last CHR ''/'' p in
      if CHR ''.'' \<in> set name \<and> filter (\<lambda>x. x \<noteq> CHR ''.'') (before_last CHR ''.'' name) \<noteq> []
      then CHR ''.'' # after_last CHR ''.'' name
      else [])"

text \<open>
  The entries of the standard library's built-in \<^verbatim>\<open>mimetypes.types_map\<close> for the eight
  extensions of \<^typ>\<open>FileExtension\<close>.
\<close>

definition types_map :: "string \<rightharpoonup> string" where
  "types_map = map_of
     [(''.pdf'', ''application/pdf''),
      (''.json'', ''application/json''),
      (''.png'', ''image/png''),
      (''.jpeg'', ''image/jpeg''),
      (''.jpg'', ''image/jpeg''),
      (''.html'', ''text/html''),
      (''.txt'', ''text/plain''),
      (''.md'', ''text/markdown'')]"

text \<open>
  \<^verbatim>\<open>mimetypes.guess_type(name)[0]\<close> for a name without a URL scheme: the extension is
  looked up in lower case. (The library first rewrites the archive suffixes of its
  \<^verbatim>\<open>suffix_map\<close> and strips the compression suffixes of its \<^verbatim>\<open>encodings_map\<close>; no
  name built by \<^verbatim>\<open>get_mime_type\<close> ends in one of them.)
\<close>

definition guess_type :: "string \<Rightarrow> string option" where
  "guess_type name = types_map (str_lower (splitext_ext name))"

subsection \<open>MD5 (\<^verbatim>\<open>hashlib.md5\<close>, RFC 1321)\<close>

type_synonym u32 = "32 word"

definition md5_K :: "u32 list" where
  "md5_K =
    [0xd76aa478, 0xe8c7b756, 0x242070db, 0xc1bdceee, 0xf57c0faf, 0x4787c62a, 0xa8304613, 0xfd469501,
     0x698098d8, 0x8b44f7af, 0xffff5bb1, 0x895cd7be, 0x6b901122, 0xfd987193, 0xa679438e, 0x49b40821,
     0xf61e2562, 0xc040b340, 0x265e5a51, 0xe9b6c7aa, 0xd62f105d, 0x02441453, 0xd8a1e681, 0xe7d3fbc8,
     0x21e1cde6, 0xc33707d6, 0xf4d50d87, 0x455a14ed, 0xa9e3e905, 0xfcefa3f8, 0x676f02d9, 0x8d2a4c8a,
     0xfffa3942, 0x8771f681, 0x6d9d6122, 0xfde5380c, 0xa4beea44, 0x4bdecfa9, 0xf6bb4b60, 0xbebfbc70,
     0x289b7ec6, 0xeaa127fa, 0xd4ef3085, 0x04881d05, 0xd9d4d039, 0xe6db99e5, 0x1fa27cf8, 0xc4ac5665,
     0xf4292244, 0x432aff97, 0xab9423a7, 0xfc93a039, 0x655b59c3, 0x8f0ccc92, 0xffeff47d, 0x85845dd1,
     0x6fa87e4f, 0xfe2ce6e0, 0xa3014314, 0x4e0811a1, 0xf7537e82, 0xbd3af235, 0x2ad7d2bb, 0xeb86d391]"

definition md5_S :: "nat list" where
  "md5_S =
    [7, 12, 17, 22, 7, 12, 17, 22, 7, 12, 17, 22, 7, 12, 17, 22,
     5, 9, 14, 20, 5, 9, 14, 20, 5, 9, 14, 20, 5, 9, 14, 20,
     4, 11, 16, 23, 4, 11, 16, 23, 4, 11, 16, 23, 4, 11, 16, 23,
     6, 10, 15, 21, 6, 10, 15, 21, 6, 10, 15, 21, 6, 10, 15, 21]"

definition rotl32 :: "u32 \<Rightarrow> nat \<Rightarrow> u32" where
  "rotl32 x s = push_bit s x OR drop_bit (32 - s) x"

text \<open>Little-endian words: four bytes to a word, a word to its bytes.\<close>

definition le_word :: "bytes \<Rightarrow> u32" where
  "le_word bs = foldr (\<lambda>b acc. push_bit 8 acc OR ucast b) bs 0"

definition le_bytes32 :: "u32 \<Rightarrow> bytes" where
  "le_bytes32 w = map (\<lambda>i. ucast (drop_bit (8 * i) w)) [0..<4]"

definition le_bytes64 :: "64 word \<Rightarrow> bytes" where
  "le_bytes64 w = map (\<lambda>i. ucast (drop_bit (8 * i) w)) [0..<8]"

fun chunks :: "nat \<Rightarrow> 'a list \<Rightarrow> 'a list list" where
  "chunks n [] = []"
| "chunks n xs = (if n = 0 then [xs] else take n xs # chunks n (drop n xs))"

text \<open>
  Padding: a \<open>0x80\<close> byte, zeros up to 56 modulo 64, and the length of the message in
  bits as a 64-bit little-endian number.
\<close>

definition md5_pad :: "bytes \<Rightarrow> bytes" where
  "md5_pad m =
     m @ [0x80] @ replicate ((55 + 64 - length m mod 64) mod 64) 0
       @ le_bytes64 (8 * of_nat (length m))"

definition md5_round :: "u32 list \<Rightarrow> u32 \<times> u32 \<times> u32 \<times> u32 \<Rightarrow> nat \<Rightarrow> u32 \<times> u32 \<times> u32 \<times> u32" where
  "md5_round M st i =
     (case st of (A, B, C, D) \<Rightarrow>
        let (F, g) =
              (if i < 16 then ((B AND C) OR (NOT B AND D), i)
               else if i < 32 then ((D AND B) OR (NOT D AND C), (5 * i + 1) mod 16)
               else if i < 48 then (B XOR C XOR D, (3 * i + 5) mod 16)
               else (C XOR (B OR NOT D), (7 * i) mod 16));
            F' = F + A + md5_K ! i + M ! g
        in (D, B + rotl32 F' (md5_S ! i), B, C))"

definition md5_block :: "u32 \<times> u32 \<times> u32 \<times> u32 \<Rightarrow> bytes \<Rightarrow> u32 \<times> u32 \<times> u32 \<times> u32" where
  "md5_block st blk =
     (let M = map le_word (chunks 4 blk) in
      case (st, foldl (md5_round M) st [0..<64]) of
        ((a0, b0, c0, d0), (A, B, C, D)) \<Rightarrow> (a0 + A, b0 + B, c0 + C, d0 + D))"

definition md5_digest :: "bytes \<Rightarrow> bytes" where
  "md5_digest m =
     (case foldl md5_block (0x67452301, 0xefcdab89, 0x98badcfe, 0x10325476)
             (chunks 64 (md5_pad m)) of
        (A, B, C, D) \<Rightarrow> concat (map le_bytes32 [A, B, C, D]))"

definition hex_digit :: "nat \<Rightarrow> char" where
  "hex_digit n = ''0123456789abcdef'' ! (n mod 16)"

definition hexlify :: "bytes \<Rightarrow> string" where
  "hexlify bs = concat (map (\<lambda>b. [hex_digit (unat b div 16), hex_digit (unat b mod 16)]) bs)"

definition md5_hexdigest :: "bytes \<Rightarrow> string" where
  "md5_hexdigest m = hexlify (md5_digest m)"

subsection \<open>Derived operations of \<^verbatim>\<open>RawFile\<close>\<close>

text \<open>
  The gzip codec and SHA-256 belong to the standard library, not to this repository:
  the operations that call them take them as parameters.
\<close>

record libs =
  gzip_compress :: "bytes \<Rightarrow> bytes"
  gzip_decompress :: "bytes \<Rightarrow> py_error + bytes"
  sha256_hexdigest :: "bytes \<Rightarrow> string"

definition get_size :: "RawFile \<Rightarrow> int" where
  "get_size self = int (length (contents self))"

definition compute_md5 :: "RawFile \<Rightarrow> string" where
  "compute_md5 self = md5_hexdigest (contents self)"

definition compute_sha256 :: "libs \<Rightarrow> RawFile \<Rightarrow> string" where
  "compute_sha256 L self = sha256_hexdigest L (contents self)"

definition get_mime_type :: "RawFile \<Rightarrow> string" where
  "get_mime_type self =
     (case guess_type (''file.'' @ format_FileExtension (extension self)) of
        None \<Rightarrow> ''application/octet-stream''
      | Some mime_type \<Rightarrow> if mime_type = [] then ''application/octet-stream'' else mime_type)"

definition compress :: "libs \<Rightarrow> RawFile \<Rightarrow> RawFile" where
  "compress L self =
     (let compressed_data = gzip_compress L (contents self)
      in \<lparr>contents = compressed_data, extension = extension self\<rparr>)"

definition decompress :: "libs \<Rightarrow> RawFile \<Rightarrow> py_error + RawFile" where
  "decompress L self =
     (case gzip_decompress L (contents self) of
        Inl e \<Rightarrow> Inl e
      | Inr decompressed_data \<Rightarrow> Inr \<lparr>contents = decompressed_data, extension = extension self\<rparr>)"

definition read_async :: "RawFile \<Rightarrow> bytes" where
  "read_async self = contents self"

definition bytes_of_ascii :: "string \<Rightarrow> bytes" where
  "bytes_of_ascii s = map of_char s"

subsection \<open>Acquisition from the local filesystem\<close>

text \<open>
  The filesystem as \<^verbatim>\<open>from_file_path\<close> and \<^verbatim>\<open>save_to_file\<close> see it: a path names
  nothing, a directory (or another node that is not a regular file), or a regular file
  with its bytes and whether \<^verbatim>\<open>open\<close> is permitted on it.
\<close>

datatype fs_node = Directory | RegularFile bytes bool

type_synonym filesystem = "string \<rightharpoonup> fs_node"

text \<open>
  \<^verbatim>\<open>from_file_path(file_path)\<close>: the checks in the source's order
  (\<^verbatim>\<open>path.exists()\<close>, \<^verbatim>\<open>path.is_file()\<close>), then the read, then
  \<^verbatim>\<open>FileExtension(path.suffix.lstrip("."))\<close>. The constructor has no extension parameter.
\<close>

definition from_file_path :: "filesystem \<Rightarrow> string \<Rightarrow> py_error + RawFile" where
  "from_file_path fs file_path =
     (case fs file_path of
        None \<Rightarrow> Inl FileNotFoundError
      | Some Directory \<Rightarrow> Inl ValueError
      | Some (RegularFile data permitted) \<Rightarrow>
          if \<not> permitted then Inl OSError
          else (case FileExtension_of_value (lstrip_dot (path_suffix file_path)) of
                  Inl e \<Rightarrow> Inl e
                | Inr ext \<Rightarrow> Inr \<lparr>contents = data, extension = ext\<rparr>))"

text \<open>
  \<^verbatim>\<open>save_to_file\<close>: \<^verbatim>\<open>open(file_path, "wb")\<close> and one write. Opening fails on a
  directory and on a file it is not permitted to open. A path that names nothing is
  created when the directory it lies in exists: \<^verbatim>\<open>FileNotFoundError\<close> when that
  directory is missing or the path is empty, an \<^verbatim>\<open>OSError\<close> when it is not a directory.
  A path without a slash lies in the current directory, a path whose only slash is the
  first lies in the root; both exist.
\<close>

definition write_file :: "filesystem \<Rightarrow> string \<Rightarrow> bytes \<Rightarrow> py_error + filesystem" where
  "write_file fs file_path data =
     (case fs file_path of
        Some Directory \<Rightarrow> Inl OSError
      | Some (RegularFile old permitted) \<Rightarrow>
          if permitted then Inr (fs(file_path \<mapsto> RegularFile data True)) else Inl OSError
      | None \<Rightarrow>
          if file_path = [] then Inl FileNotFoundError
          else if CHR ''/'' \<in> set file_path \<and> before_last CHR ''/'' file_path \<noteq> [] then
            (case fs (before_last CHR ''/'' file_path) of
               None \<Rightarrow> Inl FileNotFoundError
             | Some (RegularFile parent permitted) \<Rightarrow> Inl OSError
             | Some Directory \<Rightarrow>
                 if after_last CHR ''/'' file_path = [] then Inl OSError
                 else Inr (fs(file_path \<mapsto> RegularFile data True)))
          else Inr (fs(file_path \<mapsto> RegularFile data True)))"

definition save_to_file :: "filesystem \<Rightarrow> RawFile \<Rightarrow> string \<Rightarrow> py_error + filesystem" where
  "save_to_file fs self file_path = write_file fs file_path (contents self)"

subsection \<open>Acquisition from a URL\<close>

text \<open>
  The HTTP side of \<^verbatim>\<open>from_url\<close>: \<^verbatim>\<open>validators.url\<close>, which returns \<^verbatim>\<open>True\<close> or a
  falsy failure object and does not raise, and \<^verbatim>\<open>requests.get\<close>, which returns a
  response or raises. The keyword arguments of \<^verbatim>\<open>from_url\<close> other than
  \<^verbatim>\<open>extension\<close> are handed to \<^verbatim>\<open>requests.get\<close> unchanged and are part of
  \<open>requests_get\<close> here. The headers of a response are keyed by lower-case name, as in
  \<^verbatim>\<open>requests\<close>' case-insensitive dictionary.
\<close>

record response =
  content :: bytes
  headers :: "string \<rightharpoonup> string"

record http_env =
  validators_url :: "string \<Rightarrow> bool"
  requests_get :: "string \<Rightarrow> py_error + response"

definition headers_get :: "response \<Rightarrow> string \<Rightarrow> string \<Rightarrow> string" where
  "headers_get r name dflt =
     (case headers r (str_lower name) of None \<Rightarrow> dflt | Some v \<Rightarrow> v)"

text \<open>
  \<^verbatim>\<open>from_url\<close>: the result of \<^verbatim>\<open>validators.url(url)\<close> is not used; the request is made
  next. The tag is \<^verbatim>\<open>extension or (_get_extension_from_content_type(...) or HTML)\<close>.
\<close>

definition from_url :: "http_env \<Rightarrow> string \<Rightarrow> FileExtension option \<Rightarrow> py_error + RawFile" where
  "from_url E url ext =
     (let valid = validators_url E url in
      case requests_get E url of
        Inl e \<Rightarrow> Inl e
      | Inr resp \<Rightarrow>
          let response_content = content resp;
              file_extension =
                (case ext of
                   Some e \<Rightarrow> e
                 | None \<Rightarrow>
                     (case get_extension_from_content_type
                             (first_field CHR '';'' (headers_get resp ''Content-Type'' [])) of
                        Some e \<Rightarrow> e
                      | None \<Rightarrow> HTML))
          in Inr \<lparr>contents = response_content, extension = file_extension\<rparr>)"

subsection \<open>Acquisition from object storage\<close>

text \<open>
  Amazon S3: whether \<^verbatim>\<open>boto3\<close> can be imported, the client that
  \<^verbatim>\<open>boto3.client("s3")\<close> returns, and the two calls made on it.
  \<^verbatim>\<open>head_object\<close> gives the \<^verbatim>\<open>ContentType\<close> entry of its answer, if there is one.
\<close>

record s3_client =
  head_object :: "string \<Rightarrow> string \<Rightarrow> py_error + string option"
  get_object :: "string \<Rightarrow> string \<Rightarrow> py_error + bytes"

record s3_env =
  boto3_loader :: bool
  boto3_client :: "py_error + s3_client"

definition from_s3 ::
  "s3_env \<Rightarrow> string \<Rightarrow> string \<Rightarrow> FileExtension option \<Rightarrow> py_error + RawFile" where
  "from_s3 E bucket_name object_key ext =
     (if \<not> boto3_loader E then Inl ImportError
      else case boto3_client E of
        Inl e \<Rightarrow> Inl e
      | Inr s3 \<Rightarrow>
          (case (case ext of
                   Some e \<Rightarrow> Inr (Some e)
                 | None \<Rightarrow>
                     (case FileExtension_members
                             (str_upper (lstrip_dot (path_suffix object_key))) of
                        Some e \<Rightarrow> Inr (Some e)
                      | None \<Rightarrow>
                          (case head_object s3 bucket_name object_key of
                             Inl e \<Rightarrow> Inl e
                           | Inr ct \<Rightarrow>
                               Inr (get_extension_from_content_type
                                      (case ct of None \<Rightarrow> [] | Some c \<Rightarrow> c))))) of
             Inl e \<Rightarrow> Inl e
           | Inr None \<Rightarrow> Inl ValueError
           | Inr (Some e) \<Rightarrow>
               (case get_object s3 bucket_name object_key of
                  Inl e' \<Rightarrow> Inl e'
                | Inr data \<Rightarrow> Inr \<lparr>contents = data, extension = e\<rparr>)))"

text \<open>
  Azure Blob Storage: the blob client is made first; a blob without a content type is
  an error of its own before the lookup.
\<close>

record blob_client =
  get_blob_properties :: "py_error + string option"
  download_blob :: "py_error + bytes"

record azure_env =
  azure_loader :: bool
  get_blob_client :: "string \<Rightarrow> string \<Rightarrow> string \<Rightarrow> py_error + blob_client"

definition from_azure_blob ::
  "azure_env \<Rightarrow> string \<Rightarrow> string \<Rightarrow> string \<Rightarrow> FileExtension option \<Rightarrow> py_error + RawFile" where
  "from_azure_blob E connection_string container_name blob_name ext =
     (if \<not> azure_loader E then Inl ImportError
      else case get_blob_client E connection_string container_name blob_name of
        Inl e \<Rightarrow> Inl e
      | Inr bc \<Rightarrow>
          (case (case ext of
                   Some e \<Rightarrow> Inr (Some e)
                 | None \<Rightarrow>
                     (case FileExtension_members
                             (str_upper (lstrip_dot (path_suffix blob_name))) of
                        Some e \<Rightarrow> Inr (Some e)
                      | None \<Rightarrow>
                          (case get_blob_properties bc of
                             Inl e \<Rightarrow> Inl e
                           | Inr None \<Rightarrow> Inl ValueError
                           | Inr (Some content_type) \<Rightarrow>
                               Inr (get_extension_from_content_type content_type)))) of
             Inl e \<Rightarrow> Inl e
           | Inr None \<Rightarrow> Inl ValueError
           | Inr (Some e) \<Rightarrow>
               (case download_blob bc of
                  Inl e' \<Rightarrow> Inl e'
                | Inr data \<Rightarrow> Inr \<lparr>contents = data, extension = e\<rparr>)))"

text \<open>
  Google Cloud Storage: \<^verbatim>\<open>blob.reload()\<close> fetches the content type, which may be
  \<^verbatim>\<open>None\<close>; the dictionary lookup of \<^verbatim>\<open>None\<close> finds nothing.
\<close>

record gcs_blob =
  reload :: "py_error + string option"
  download_as_bytes :: "py_error + bytes"

record gcs_env =
  gcs_loader :: bool
  gcs_client :: "py_error + (string \<Rightarrow> string \<Rightarrow> gcs_blob)"

definition from_gcs ::
  "gcs_env \<Rightarrow> string \<Rightarrow> string \<Rightarrow> FileExtension option \<Rightarrow> py_error + RawFile" where
  "from_gcs E bucket_name blob_name ext =
     (if \<not> gcs_loader E then Inl ImportError
      else case gcs_client E of
        Inl e \<Rightarrow> Inl e
      | Inr client \<Rightarrow>
          (let blob = client bucket_name blob_name in
           case (case ext of
                   Some e \<Rightarrow> Inr (Some e)
                 | None \<Rightarrow>
                     (case FileExtension_members
                             (str_upper (lstrip_dot (path_suffix blob_name))) of
                        Some e \<Rightarrow> Inr (Some e)
                      | None \<Rightarrow>
                          (case reload blob of
                             Inl e \<Rightarrow> Inl e
                           | Inr None \<Rightarrow> Inr None
                           | Inr (Some content_type) \<Rightarrow>
                               Inr (get_extension_from_content_type content_type)))) of
             Inl e \<Rightarrow> Inl e
           | Inr None \<Rightarrow> Inl ValueError
           | Inr (Some e) \<Rightarrow>
               (case download_as_bytes blob of
                  Inl e' \<Rightarrow> Inl e'
                | Inr data \<Rightarrow> Inr \<lparr>contents = data, extension = e\<rparr>)))"

subsection \<open>Acquisition from an archive and over FTP\<close>

text \<open>
  \<^verbatim>\<open>from_zip\<close>: \<open>zip_read\<close> opens the archive and the member and reads it, or raises;
  the tag is resolved after the read.
\<close>

definition from_zip ::
  "(string \<Rightarrow> string \<Rightarrow> py_error + bytes) \<Rightarrow> string \<Rightarrow> string \<Rightarrow> FileExtension option
     \<Rightarrow> py_error + RawFile" where
  "from_zip zip_read zip_file_path inner_file_path ext =
     (case zip_read zip_file_path inner_file_path of
        Inl e \<Rightarrow> Inl e
      | Inr data \<Rightarrow>
          (case ext of
             Some e \<Rightarrow> Inr \<lparr>contents = data, extension = e\<rparr>
           | None \<Rightarrow>
               (case FileExtension_of_value (lstrip_dot (path_suffix inner_file_path)) of
                  Inl e \<Rightarrow> Inl e
                | Inr e \<Rightarrow> Inr \<lparr>contents = data, extension = e\<rparr>)))"

record ftp_env =
  ftp_connect :: "string \<Rightarrow> py_error + unit"
  ftp_login :: "string \<Rightarrow> string \<Rightarrow> py_error + unit"
  ftp_retrbinary :: "string \<Rightarrow> py_error + bytes"
  ftp_quit :: "py_error + unit"

definition from_ftp ::
  "ftp_env \<Rightarrow> string \<Rightarrow> string \<Rightarrow> string \<Rightarrow> string \<Rightarrow> FileExtension option
     \<Rightarrow> py_error + RawFile" where
  "from_ftp E host filepath username password ext =
     (case ftp_connect E host of
        Inl e \<Rightarrow> Inl e
      | Inr u1 \<Rightarrow>
     (case ftp_login E username password of
        Inl e \<Rightarrow> Inl e
      | Inr u2 \<Rightarrow>
     (case ftp_retrbinary E (''RETR '' @ filepath) of
        Inl e \<Rightarrow> Inl e
      | Inr data \<Rightarrow>
     (case ftp_quit E of
        Inl e \<Rightarrow> Inl e
      | Inr u3 \<Rightarrow>
          (case ext of
             Some e \<Rightarrow> Inr \<lparr>contents = data, extension = e\<rparr>
           | None \<Rightarrow>
               (case FileExtension_of_value (lstrip_dot (path_suffix filepath)) of
                  Inl e \<Rightarrow> Inl e
                | Inr e \<Rightarrow> Inr \<lparr>contents = data, extension = e\<rparr>))))))"

subsection \<open>Objects: the operations of a \<^verbatim>\<open>RawFile\<close> on a store\<close>

text \<open>
  To speak about mutation, objects live in a store: a reference is an index into the
  list of the objects allocated so far, and \<^verbatim>\<open>RawFile(...)\<close> allocates the next one.
  The world also holds the filesystem, which \<^verbatim>\<open>save_to_file\<close> writes.
\<close>

datatype py_value = Ref nat | IntV int | StrV string | BytesV bytes | NoneV

record world =
  heap :: "RawFile list"
  files :: filesystem

definition new_object :: "world \<Rightarrow> RawFile \<Rightarrow> py_value \<times> world" where
  "new_object w f = (Ref (length (heap w)), w\<lparr>heap := heap w @ [f]\<rparr>)"

text \<open>
  The public operations of an instance. The last two are attribute assignments, which
  a \<^verbatim>\<open>frozen=True\<close> struct rejects with \<^verbatim>\<open>AttributeError\<close>.
\<close>

datatype operation =
    Compress
  | Decompress
  | Get_size
  | Compute_md5
  | Compute_sha256
  | Get_mime_type
  | Save_to_file string
  | Read_async
  | Enter
  | Exit
  | Set_contents bytes
  | Set_extension FileExtension

definition call :: "libs \<Rightarrow> world \<Rightarrow> nat \<Rightarrow> operation \<Rightarrow> (py_error + py_value) \<times> world" where
  "call L w self op =
     (let f = heap w ! self in
      case op of
        Compress \<Rightarrow> (case new_object w (compress L f) of (r, w') \<Rightarrow> (Inr r, w'))
      | Decompress \<Rightarrow>
          (case decompress L f of
             Inl e \<Rightarrow> (Inl e, w)
           | Inr g \<Rightarrow> (case new_object w g of (r, w') \<Rightarrow> (Inr r, w')))
      | Get_size \<Rightarrow> (Inr (IntV (get_size f)), w)
      | Compute_md5 \<Rightarrow> (Inr (StrV (compute_md5 f)), w)
      | Compute_sha256 \<Rightarrow> (Inr (StrV (compute_sha256 L f)), w)
      | Get_mime_type \<Rightarrow> (Inr (StrV (get_mime_type f)), w)
      | Save_to_file file_path \<Rightarrow>
          (case save_to_file (files w) f file_path of
             Inl e \<Rightarrow> (Inl e, w)
           | Inr fs' \<Rightarrow> (Inr NoneV, w\<lparr>files := fs'\<rparr>))
      | Read_async \<Rightarrow> (Inr (BytesV (read_async f)), w)
      | Enter \<Rightarrow> (Inr (Ref self), w)
      | Exit \<Rightarrow> (Inr NoneV, w)
      | Set_contents v \<Rightarrow> (Inl AttributeError, w)
      | Set_extension v \<Rightarrow> (Inl AttributeError, w))"

section \<open>The bridge of \<^verbatim>\<open>architecture/utils/functions.py\<close>\<close>

text \<open>
  The calling thread's view of \<^verbatim>\<open>asyncio\<close>: the state of the program that
  computations act on, whether an event loop is running on this thread, the tasks
  queued on that loop, and the trace of what has happened to event loops.
  A coroutine is a computation on the program state that returns or raises;
  \<open>None\<close> is a coroutine that never completes.
\<close>

datatype loop_event = New_loop | Run_until_complete | Close_loop

type_synonym ('s, 'a) coroutine = "'s \<Rightarrow> ((py_error + 'a) \<times> 's) option"

record ('s, 'a) runtime =
  program_state :: 's
  running_loop :: bool
  scheduled :: "('s, 'a) coroutine list"
  loop_trace :: "loop_event list"

text \<open>\<^verbatim>\<open>asyncio.get_running_loop()\<close> raises \<^verbatim>\<open>RuntimeError\<close> when no loop is running.\<close>

definition get_running_loop :: "('s, 'a) runtime \<Rightarrow> py_error + unit" where
  "get_running_loop rt = (if running_loop rt then Inr () else Inl RuntimeError)"

text \<open>\<^verbatim>\<open>loop.create_task(coro)\<close> queues the coroutine and returns at once.\<close>

definition create_task :: "('s, 'a) coroutine \<Rightarrow> ('s, 'a) runtime \<Rightarrow> ('s, 'a) runtime" where
  "create_task coro rt = rt\<lparr>scheduled := scheduled rt @ [coro]\<rparr>"

text \<open>
  \<^verbatim>\<open>asyncio.run(coro)\<close> refuses to run under a running loop; otherwise it makes a new
  loop, runs the coroutine to completion on it and closes the loop, also when the
  coroutine raises.
\<close>

definition asyncio_run ::
  "('s, 'a) coroutine \<Rightarrow> ('s, 'a) runtime \<Rightarrow> ((py_error + 'a) \<times> ('s, 'a) runtime) option" where
  "asyncio_run coro rt =
     (if running_loop rt then Some (Inl RuntimeError, rt)
      else case coro (program_state rt) of
        None \<Rightarrow> None
      | Some (res, s') \<Rightarrow>
          Some (res, rt\<lparr>program_state := s',
                         loop_trace := loop_trace rt @ [New_loop, Run_until_complete, Close_loop]\<rparr>))"

text \<open>
  \<^verbatim>\<open>fire_and_forget\<close>: the \<^verbatim>\<open>try\<close> branch schedules a task on the running loop, the
  \<^verbatim>\<open>except RuntimeError\<close> branch runs the coroutine with \<^verbatim>\<open>asyncio.run\<close>. The
  function returns \<^verbatim>\<open>None\<close>; an exception of \<^verbatim>\<open>asyncio.run\<close> propagates.
\<close>

definition fire_and_forget ::
  "('s, 'a) coroutine \<Rightarrow> ('s, 'a) runtime \<Rightarrow> ((py_error + unit) \<times> ('s, 'a) runtime) option" where
  "fire_and_forget async_func rt =
     (case get_running_loop rt of
        Inr loop \<Rightarrow> Some (Inr (), create_task async_func rt)
      | Inl e \<Rightarrow>
          (case asyncio_run async_func rt of
             None \<Rightarrow> None
           | Some (Inl e', rt') \<Rightarrow> Some (Inl e', rt')
           | Some (Inr v, rt') \<Rightarrow> Some (Inr (), rt')))"

subsection \<open>The blocking bridge\<close>

text \<open>
  \<^verbatim>\<open>run_sync(func, *args, **kwargs)\<close> as the calling thread sees it. The callable with
  its arguments is a computation on the program state that returns or raises after some
  time units; \<open>None\<close> is a call that never returns. The caller's context holds the
  program state, the loop that \<^verbatim>\<open>asyncio.get_running_loop()\<close> finds on this thread
  (with what its \<^verbatim>\<open>is_running()\<close> answers), whether this is the main thread, the time
  spent so far, and the trace of what the bridge did.
\<close>

type_synonym ('s, 'a) timed = "'s \<Rightarrow> ((py_error + 'a) \<times> 's \<times> nat) option"

datatype bridge_event =
    On_caller loop_event
  | On_worker loop_event
  | Submit
  | Result_timed_out
  | Worker_joined

record 's caller =
  caller_state :: 's
  current_loop :: "bool option"
  on_main_thread :: bool
  elapsed :: nat
  bridge_trace :: "bridge_event list"

text \<open>
  \<^verbatim>\<open>future.result(timeout)\<close> on the future of a submitted computation: its outcome when
  it is done within the bound, \<^verbatim>\<open>TimeoutError\<close> otherwise, also for a computation that
  never ends.
\<close>

definition future_result :: "nat \<Rightarrow> ((py_error + 'a) \<times> 's \<times> nat) option \<Rightarrow> py_error + 'a" where
  "future_result timeout w =
     (case w of
        None \<Rightarrow> Inl TimeoutError
      | Some (res, s', d) \<Rightarrow> if d \<le> timeout then res else Inl TimeoutError)"

text \<open>
  What the worker thread and the pool do, in the order of time: the submission, the new
  loop on the worker, the run to completion there, the closing of that loop, and the
  join of the worker when the \<^verbatim>\<open>with ThreadPoolExecutor()\<close> block is left; the
  time-out of \<^verbatim>\<open>future.result\<close>, when there is one, falls before the run completes.
\<close>

definition pool_events :: "bool \<Rightarrow> bridge_event list" where
  "pool_events in_time =
     (if in_time
      then [Submit, On_worker New_loop, On_worker Run_until_complete, On_worker Close_loop,
            Worker_joined]
      else [Submit, On_worker New_loop, Result_timed_out, On_worker Run_until_complete,
            On_worker Close_loop, Worker_joined])"

text \<open>
  The branches of \<^verbatim>\<open>run_sync\<close> in the source's order.
  \<^item> No running loop: \<^verbatim>\<open>asyncio.run\<close> on the calling thread.
  \<^item> Main thread, loop not running: \<^verbatim>\<open>loop.run_until_complete\<close> on the calling thread.
  \<^item> Main thread, loop running: the computation is submitted to a pool and runs on a
    worker thread in a new loop; \<^verbatim>\<open>return future.result(30)\<close> gives the value or the
    exception that leaves the \<^verbatim>\<open>with\<close> block, and leaving the block waits for the
    worker (\<^verbatim>\<open>shutdown(wait=True)\<close>), so the call returns when the computation has
    ended and not before.
  \<^item> Another thread with a running loop: \<^verbatim>\<open>run_coroutine_threadsafe(...).result()\<close>
    blocks the thread whose loop would have to run the coroutine; the call does not
    return.
\<close>

definition run_sync :: "('s, 'a) timed \<Rightarrow> 's caller \<Rightarrow> ((py_error + 'a) \<times> 's caller) option" where
  "run_sync func c =
     (case current_loop c of
        None \<Rightarrow>
          (case func (caller_state c) of
             None \<Rightarrow> None
           | Some (res, s', d) \<Rightarrow>
               Some (res, c\<lparr>caller_state := s', elapsed := elapsed c + d,
                              bridge_trace := bridge_trace c @
                                [On_caller New_loop, On_caller Run_until_complete,
                                 On_caller Close_loop]\<rparr>))
      | Some is_running \<Rightarrow>
          if on_main_thread c then
            (if \<not> is_running then
               (case func (caller_state c) of
                  None \<Rightarrow> None
                | Some (res, s', d) \<Rightarrow>
                    Some (res, c\<lparr>caller_state := s', elapsed := elapsed c + d,
                                   bridge_trace := bridge_trace c @
                                     [On_caller Run_until_complete]\<rparr>))
             else
               (let w = func (caller_state c);
                    r = future_result 30 w
                in case w of
                     None \<Rightarrow> None
                   | Some (res, s', d) \<Rightarrow>
                       Some (r, c\<lparr>caller_state := s', elapsed := elapsed c + d,
                                    bridge_trace := bridge_trace c @ pool_events (d \<le> 30)\<rparr>)))
          else None)"

section \<open>Example inputs\<close>

text \<open>
  A stand-in for the gzip codec, used to instantiate the theorems below: it frames the
  data with the two magic bytes of a gzip member.
\<close>

definition example_libs :: libs where
  "example_libs =
     \<lparr>gzip_compress = (\<lambda>b. [0x1f, 0x8b] @ b),
      gzip_decompress = (\<lambda>b. if take 2 b = [0x1f, 0x8b] then Inr (drop 2 b) else Inl BadGzipFile),
      sha256_hexdigest = (\<lambda>b. [])\<rparr>"

definition hello :: bytes where
  "hello = bytes_of_ascii ''Hello, World!''"

definition example_fs :: filesystem where
  "example_fs =
     [''reports'' \<mapsto> Directory,
      ''report.txt'' \<mapsto> RegularFile hello True,
      ''data.xyz'' \<mapsto> RegularFile hello True]"

definition example_world :: world where
  "example_world = \<lparr>heap = [from_bytes hello TXT], files = example_fs\<rparr>"

text \<open>A server that answers one URL with an XML document and a plain-text one.\<close>

definition xml_response :: response where
  "xml_response =
     \<lparr>content = bytes_of_ascii ''<a/>'', headers = [''content-type'' \<mapsto> ''application/xml'']\<rparr>"

definition text_response :: response where
  "text_response =
     \<lparr>content = hello, headers = [''content-type'' \<mapsto> ''text/plain; charset=utf-8'']\<rparr>"

definition example_http :: http_env where
  "example_http =
     \<lparr>validators_url = (\<lambda>u. CHR '' '' \<notin> set u),
      requests_get = (\<lambda>u. if u = ''http://example.com/a b'' then Inr xml_response
                           else if u = ''http://example.com/notes'' then Inr text_response
                           else Inl (LibraryError ''ConnectionError''))\<rparr>"

definition example_s3 :: s3_env where
  "example_s3 =
     \<lparr>boto3_loader = True,
      boto3_client = Inr \<lparr>head_object = (\<lambda>b k. Inr (Some ''application/xml'')),
                          get_object = (\<lambda>b k. Inr hello)\<rparr>\<rparr>"

definition example_azure :: azure_env where
  "example_azure =
     \<lparr>azure_loader = True,
      get_blob_client = (\<lambda>c n b. Inr \<lparr>get_blob_properties = Inr (Some ''text/plain''),
                                        download_blob = Inr hello\<rparr>)\<rparr>"

definition example_gcs :: gcs_env where
  "example_gcs =
     \<lparr>gcs_loader = True,
      gcs_client = Inr (\<lambda>b n. \<lparr>reload = Inr (Some ''text/plain''),
                               download_as_bytes = Inr hello\<rparr>)\<rparr>"

definition example_zip :: "string \<Rightarrow> string \<Rightarrow> py_error + bytes" where
  "example_zip z inner = (if inner = ''notes.txt'' then Inr hello else Inl KeyError)"

definition example_ftp :: ftp_env where
  "example_ftp =
     \<lparr>ftp_connect = (\<lambda>h. Inr ()),
      ftp_login = (\<lambda>u p. Inr ()),
      ftp_retrbinary = (\<lambda>c. Inr hello),
      ftp_quit = Inr ()\<rparr>"

text \<open>A coroutine that increments a counter, and a thread without a running loop.\<close>

definition increment :: "(nat, unit) coroutine" where
  "increment n = Some (Inr (), Suc n)"

definition idle_runtime :: "(nat, unit) runtime" where
  "idle_runtime = \<lparr>program_state = 0, running_loop = False, scheduled = [], loop_trace = []\<rparr>"

text \<open>
  The main thread inside a running loop, and three computations: one that returns 42
  after one time unit, one that returns it after a hundred, one that never returns.
\<close>

definition busy_main :: "nat caller" where
  "busy_main =
     \<lparr>caller_state = 0, current_loop = Some True, on_main_thread = True, elapsed = 0,
      bridge_trace = []\<rparr>"

definition quick :: "(nat, int) timed" where
  "quick s = Some (Inr 42, Suc s, 1)"

definition slow :: "(nat, int) timed" where
  "slow s = Some (Inr 42, Suc s, 100)"

definition endless :: "(nat, int) timed" where
  "endless s = None"

section \<open>Properties\<close>

subsection \<open>Base64 round trip\<close>

lemma byte_eqI:
  fixes a b :: byte
  assumes "bit a 0 = bit b 0" "bit a 1 = bit b 1" "bit a 2 = bit b 2" "bit a 3 = bit b 3"
    "bit a 4 = bit b 4" "bit a 5 = bit b 5" "bit a 6 = bit b 6" "bit a 7 = bit b 7"
  shows "a = b"
proof (rule bit_word_eqI)
  fix n assume "n < LENGTH(8)"
  then have "n \<in> {..<8}" by simp
  also have "{..<8::nat} = {0, 1, 2, 3, 4, 5, 6, 7}" by auto
  finally show "bit a n = bit b n" using assms by auto
qed

lemma table_a2b_base64_nth:
  assumes n: "n < 64"
  shows "table_a2b_base64 (b64_alphabet ! n) = Some (of_nat n)"
proof -
  have d: "distinct b64_alphabet" by (simp add: b64_alphabet_def)
  have l: "length b64_alphabet = length (map of_nat [0..<64] :: byte list)"
    by (simp add: b64_alphabet_def)
  have "map_of (zip b64_alphabet (map of_nat [0..<64] :: byte list)) (b64_alphabet ! n)
          = Some ((map of_nat [0..<64]) ! n)"
    using map_of_zip_nth[OF l d] n by simp
  then show ?thesis using n by (simp add: table_a2b_base64_def del: upt.simps)
qed

lemma table_b2a_base64_props:
  "table_a2b_base64 (table_b2a_base64 n) = Some (n AND 0x3f)"
  "table_b2a_base64 n \<noteq> CHR ''=''"
  "of_char (table_b2a_base64 n) < (128::nat)"
proof -
  have m: "(0x3f::byte) = mask 6" by (simp add: mask_eq_exp_minus_1)
  have "n AND mask 6 < 2 ^ 6" by (rule and_mask_less') simp
  then have lt: "unat (n AND 0x3f) < 64"
    unfolding m by (simp add: word_less_nat_alt)
  show "table_a2b_base64 (table_b2a_base64 n) = Some (n AND 0x3f)"
    using table_a2b_base64_nth[OF lt] by (simp add: table_b2a_base64_def)
  have "\<forall>c\<in>set b64_alphabet. c \<noteq> CHR ''='' \<and> of_char c < (128::nat)"
    by (simp add: b64_alphabet_def)
  moreover have "length b64_alphabet = 64" by (simp add: b64_alphabet_def)
  ultimately have "\<forall>i<64. b64_alphabet ! i \<noteq> CHR ''='' \<and> of_char (b64_alphabet ! i) < (128::nat)"
    by (metis nth_mem)
  then show "table_b2a_base64 n \<noteq> CHR ''=''" "of_char (table_b2a_base64 n) < (128::nat)"
    using lt by (auto simp add: table_b2a_base64_def)
qed

lemma ascii_b64encode: "list_all (\<lambda>c. of_char c < (128::nat)) (b64encode bs)"
  by (induction bs rule: b64encode.induct) (simp_all add: table_b2a_base64_props)

lemma a2b_base64_b64encode: "a2b_base64 (b64encode bs) 0 0 0 out = Inr (out @ bs)"
proof (induction bs arbitrary: out rule: b64encode.induct)
  case 1
  show ?case by simp
next
  case (2 a)
  show ?case
    apply (simp add: table_b2a_base64_props)
    apply (rule byte_eqI; simp add: bit_simps)
    done
next
  case (3 a b)
  show ?case
    apply (simp add: table_b2a_base64_props)
    apply (intro conjI; rule byte_eqI; simp add: bit_simps)
    done
next
  case (4 a b c rest)
  show ?case
    apply (simp add: table_b2a_base64_props "4.IH")
    apply (intro conjI; rule byte_eqI; simp add: bit_simps)
    done
qed

lemma b64decode_b64encode: "b64decode (b64encode bs) = Inr bs"
  by (simp add: b64decode_def ascii_b64encode a2b_base64_b64encode)

text \<open>
  Claim C10. For every byte sequence \<open>b\<close> and every tag \<open>t\<close>, constructing through the
  base64 path from the standard base64 encoding of \<open>b\<close> returns, without an error, the
  same value as \<^verbatim>\<open>from_bytes(b, t)\<close>: both fields are equal.
\<close>

theorem from_base64_b64encode:
  "from_base64 (b64encode b) t = Inr (from_bytes b t)"
  by (simp add: from_base64_def b64decode_b64encode)

subsection \<open>The \<^verbatim>\<open>Hello, World!\<close> scenario\<close>

text \<open>
  Claim C3. The file \<^verbatim>\<open>from_bytes(b"Hello, World!", TXT)\<close> has size 13, its MD5 checksum
  is the hexadecimal digest \<^verbatim>\<open>65a8e27d8879283831b664bd8b7f0ad4\<close>, and its MIME type is
  \<^verbatim>\<open>text/plain\<close>.
\<close>

theorem hello_world_scenario:
  "get_size (from_bytes (bytes_of_ascii ''Hello, World!'') TXT) = 13 \<and>
   compute_md5 (from_bytes (bytes_of_ascii ''Hello, World!'') TXT)
     = ''65a8e27d8879283831b664bd8b7f0ad4'' \<and>
   get_mime_type (from_bytes (bytes_of_ascii ''Hello, World!'') TXT) = ''text/plain''"
proof (intro conjI)
  show "get_size (from_bytes (bytes_of_ascii ''Hello, World!'') TXT) = 13"
    by (simp add: get_size_def from_bytes_def bytes_of_ascii_def)
  show "compute_md5 (from_bytes (bytes_of_ascii ''Hello, World!'') TXT)
     = ''65a8e27d8879283831b664bd8b7f0ad4''"
    by code_simp
  show "get_mime_type (from_bytes (bytes_of_ascii ''Hello, World!'') TXT) = ''text/plain''"
    by code_simp
qed

subsection \<open>Immutability\<close>

text \<open>
  Claim C1. No public operation changes an existing file: after any operation on the
  object \<open>self\<close>, every object that was in the store, \<open>self\<close> among them, has the
  contents and the extension it had before. \<^verbatim>\<open>compress\<close> returns a reference to a
  new object holding the compressed value, and so does \<^verbatim>\<open>decompress\<close> when the
  codec accepts the contents.
\<close>

theorem operations_do_not_mutate:
  assumes "self < length (heap w)"
  shows "(\<forall>a < length (heap w).
            contents (heap (snd (call L w self op)) ! a) = contents (heap w ! a) \<and>
            extension (heap (snd (call L w self op)) ! a) = extension (heap w ! a)) \<and>
         (op = Compress \<longrightarrow>
            fst (call L w self op) = Inr (Ref (length (heap w))) \<and>
            length (heap w) \<noteq> self \<and>
            heap (snd (call L w self op)) ! length (heap w) = compress L (heap w ! self)) \<and>
         (\<forall>g. op = Decompress \<and> decompress L (heap w ! self) = Inr g \<longrightarrow>
            fst (call L w self op) = Inr (Ref (length (heap w))) \<and>
            length (heap w) \<noteq> self \<and>
            heap (snd (call L w self op)) ! length (heap w) = g)"
proof (intro conjI allI impI)
  fix a assume a: "a < length (heap w)"
  have "heap (snd (call L w self op)) ! a = heap w ! a"
    using a by (cases op) (simp_all add: call_def new_object_def nth_append split: sum.split)
  then show "contents (heap (snd (call L w self op)) ! a) = contents (heap w ! a)"
    and "extension (heap (snd (call L w self op)) ! a) = extension (heap w ! a)"
    by simp_all
next
  assume "op = Compress"
  then show "fst (call L w self op) = Inr (Ref (length (heap w)))"
    and "heap (snd (call L w self op)) ! length (heap w) = compress L (heap w ! self)"
    by (simp_all add: call_def new_object_def)
  show "length (heap w) \<noteq> self" using assms by simp
next
  fix g assume "op = Decompress \<and> decompress L (heap w ! self) = Inr g"
  then show "fst (call L w self op) = Inr (Ref (length (heap w)))"
    and "heap (snd (call L w self op)) ! length (heap w) = g"
    by (simp_all add: call_def new_object_def)
  show "length (heap w) \<noteq> self" using assms by simp
qed

lemma example_compress:
  "compress example_libs (from_bytes hello TXT) = from_bytes ([0x1f, 0x8b] @ hello) TXT"
  by (simp add: compress_def example_libs_def from_bytes_def)

theorem operations_do_not_mutate_witness:
  "0 < length (heap example_world) \<and>
   heap (snd (call example_libs example_world 0 Compress)) ! 0 = from_bytes hello TXT \<and>
   fst (call example_libs example_world 0 Compress) = Inr (Ref 1) \<and>
   heap (snd (call example_libs example_world 0 Compress)) ! 1
     = from_bytes ([0x1f, 0x8b] @ hello) TXT \<and>
   decompress example_libs (from_bytes ([0x1f, 0x8b] @ hello) TXT) = Inr (from_bytes hello TXT) \<and>
   heap (snd (call example_libs \<lparr>heap = [from_bytes ([0x1f, 0x8b] @ hello) TXT], files = example_fs\<rparr>
                0 Decompress)) ! 0 = from_bytes ([0x1f, 0x8b] @ hello) TXT \<and>
   heap (snd (call example_libs \<lparr>heap = [from_bytes ([0x1f, 0x8b] @ hello) TXT], files = example_fs\<rparr>
                0 Decompress)) ! 1 = from_bytes hello TXT"
proof -
  have len: "0 < length (heap example_world)" by (simp add: example_world_def)
  have h0: "heap example_world ! 0 = from_bytes hello TXT" "length (heap example_world) = 1"
    by (simp_all add: example_world_def)
  let ?w = "\<lparr>heap = [from_bytes ([0x1f, 0x8b] @ hello) TXT], files = example_fs\<rparr>"
  have len2: "0 < length (heap ?w)" by simp
  have d: "decompress example_libs (from_bytes ([0x1f, 0x8b] @ hello) TXT) = Inr (from_bytes hello TXT)"
    by (simp add: decompress_def example_libs_def from_bytes_def)
  have e: "\<And>x y::RawFile. contents x = contents y \<Longrightarrow> extension x = extension y \<Longrightarrow> x = y"
    by simp
  note c = operations_do_not_mutate [OF len, of example_libs Compress]
  note dd = operations_do_not_mutate [OF len2, of example_libs Decompress]
  have 1: "heap (snd (call example_libs example_world 0 Compress)) ! 0 = from_bytes hello TXT"
    using c len h0 by (intro e) auto
  have 2: "fst (call example_libs example_world 0 Compress) = Inr (Ref 1)"
   "heap (snd (call example_libs example_world 0 Compress)) ! 1
     = from_bytes ([0x1f, 0x8b] @ hello) TXT"
    using c h0 example_compress by auto
  have 3: "heap (snd (call example_libs ?w 0 Decompress)) ! 0 = from_bytes ([0x1f, 0x8b] @ hello) TXT"
    using dd by (intro e) auto
  have 4: "heap (snd (call example_libs ?w 0 Decompress)) ! 1 = from_bytes hello TXT"
    using dd d by auto
  show ?thesis using len 1 2 3 4 d by blast
qed

subsection \<open>Compression round trip\<close>

text \<open>
  Claim C2. For every byte sequence \<open>b\<close> and tag \<open>t\<close>, compressing and then
  decompressing \<^verbatim>\<open>from_bytes(b, t)\<close> yields a file with contents \<open>b\<close> and extension
  \<open>t\<close>. The gzip codec is the standard library's: what is used of it is that it
  decompresses what it compressed from \<open>b\<close>.
\<close>

theorem compress_decompress_round_trip:
  assumes "gzip_decompress L (gzip_compress L b) = Inr b"
  shows "decompress L (compress L (from_bytes b t)) = Inr \<lparr>contents = b, extension = t\<rparr>"
  using assms by (simp add: decompress_def compress_def from_bytes_def)

theorem compress_decompress_round_trip_witness:
  "gzip_decompress example_libs (gzip_compress example_libs hello) = Inr hello \<and>
   decompress example_libs (compress example_libs (from_bytes hello TXT))
     = Inr \<lparr>contents = hello, extension = TXT\<rparr>"
proof -
  have h: "gzip_decompress example_libs (gzip_compress example_libs hello) = Inr hello"
    by (simp add: example_libs_def)
  show ?thesis using h compress_decompress_round_trip [OF h, of TXT] by simp
qed

subsection \<open>Local paths\<close>

lemma FileExtension_of_value_unknown:
  "s \<notin> set (map extension_value all_extensions) \<Longrightarrow> FileExtension_of_value s = Inl ValueError"
  by (auto simp add: FileExtension_of_value_def all_extensions_def)

lemma suffix_report: "lstrip_dot (path_suffix ''report.txt'') = ''txt''"
  by code_simp

lemma suffix_data: "lstrip_dot (path_suffix ''data.xyz'') = ''xyz''"
  by code_simp

text \<open>
  Claim C6. For a path that names nothing, \<^verbatim>\<open>from_file_path\<close> raises
  \<^verbatim>\<open>FileNotFoundError\<close> and returns no value; for a directory it raises
  \<^verbatim>\<open>ValueError\<close>; for a regular file that can be read and whose extension is not the
  value of a member of \<^verbatim>\<open>FileExtension\<close> it raises \<^verbatim>\<open>ValueError\<close>.
\<close>

theorem from_file_path_errors:
  "(fs p = None \<longrightarrow> from_file_path fs p = Inl FileNotFoundError) \<and>
   (fs p = Some Directory \<longrightarrow> from_file_path fs p = Inl ValueError) \<and>
   (fs p = Some (RegularFile data True) \<and>
      lstrip_dot (path_suffix p) \<notin> set (map extension_value all_extensions) \<longrightarrow>
        from_file_path fs p = Inl ValueError)"
  by (simp add: from_file_path_def FileExtension_of_value_unknown)

theorem from_file_path_errors_witness:
  "example_fs ''example.pdf'' = None \<and>
   from_file_path example_fs ''example.pdf'' = Inl FileNotFoundError \<and>
   example_fs ''reports'' = Some Directory \<and>
   from_file_path example_fs ''reports'' = Inl ValueError \<and>
   example_fs ''data.xyz'' = Some (RegularFile hello True) \<and>
   lstrip_dot (path_suffix ''data.xyz'') \<notin> set (map extension_value all_extensions) \<and>
   from_file_path example_fs ''data.xyz'' = Inl ValueError"
proof -
  have 1: "example_fs ''example.pdf'' = None" by (simp add: example_fs_def)
  have 2: "example_fs ''reports'' = Some Directory" by (simp add: example_fs_def)
  have 3: "example_fs ''data.xyz'' = Some (RegularFile hello True)" by (simp add: example_fs_def)
  have 4: "lstrip_dot (path_suffix ''data.xyz'') \<notin> set (map extension_value all_extensions)"
    by (simp add: suffix_data all_extensions_def)
  show ?thesis
    using 1 2 3 4
      from_file_path_errors [of example_fs "''example.pdf''" hello]
      from_file_path_errors [of example_fs "''reports''" hello]
      from_file_path_errors [of example_fs "''data.xyz''" hello]
    by blast
qed

subsection \<open>Tag resolution\<close>

text \<open>
  Claim C4, as stated, fails for the local-path constructor: \<^verbatim>\<open>from_file_path\<close> takes
  no explicit tag, so a file \<^verbatim>\<open>report.txt\<close> is tagged \<^verbatim>\<open>TXT\<close> and no call tags it
  \<^verbatim>\<open>PDF\<close>.
\<close>

theorem local_path_tag_counterexample:
  "from_file_path example_fs ''report.txt'' = Inr \<lparr>contents = hello, extension = TXT\<rparr> \<and>
   TXT \<noteq> PDF"
  by (simp add: from_file_path_def example_fs_def suffix_report FileExtension_of_value_def
      all_extensions_def)

text \<open>
  Claim C4, amended. Each constructor that takes an explicit tag (\<^verbatim>\<open>from_url\<close>,
  \<^verbatim>\<open>from_s3\<close>, \<^verbatim>\<open>from_azure_blob\<close>, \<^verbatim>\<open>from_gcs\<close>, \<^verbatim>\<open>from_zip\<close>, \<^verbatim>\<open>from_ftp\<close>),
  when it is given one and returns a file, returns it with that tag, whatever the
  content type or the suffix says. \<^verbatim>\<open>from_file_path\<close> takes no explicit tag: the tag of
  the file it returns is the one whose value is the path's suffix.
\<close>

theorem explicit_tag_wins:
  "(from_url H url (Some t) = Inr r1 \<longrightarrow> extension r1 = t) \<and>
   (from_s3 S bucket key (Some t) = Inr r2 \<longrightarrow> extension r2 = t) \<and>
   (from_azure_blob A conn container blob (Some t) = Inr r3 \<longrightarrow> extension r3 = t) \<and>
   (from_gcs G gbucket gblob (Some t) = Inr r4 \<longrightarrow> extension r4 = t) \<and>
   (from_zip Z zpath inner (Some t) = Inr r5 \<longrightarrow> extension r5 = t) \<and>
   (from_ftp F host fpath user pw (Some t) = Inr r6 \<longrightarrow> extension r6 = t) \<and>
   (from_file_path fs p = Inr r7 \<longrightarrow>
      extension_value (extension r7) = lstrip_dot (path_suffix p))"
proof (intro conjI impI)
  assume "from_url H url (Some t) = Inr r1"
  then show "extension r1 = t"
    by (auto simp add: from_url_def split: sum.splits)
next
  assume "from_s3 S bucket key (Some t) = Inr r2"
  then show "extension r2 = t"
    by (auto simp add: from_s3_def split: sum.splits if_splits)
next
  assume "from_azure_blob A conn container blob (Some t) = Inr r3"
  then show "extension r3 = t"
    by (auto simp add: from_azure_blob_def split: sum.splits if_splits)
next
  assume "from_gcs G gbucket gblob (Some t) = Inr r4"
  then show "extension r4 = t"
    by (auto simp add: from_gcs_def Let_def split: sum.splits if_splits)
next
  assume "from_zip Z zpath inner (Some t) = Inr r5"
  then show "extension r5 = t"
    by (auto simp add: from_zip_def split: sum.splits)
next
  assume "from_ftp F host fpath user pw (Some t) = Inr r6"
  then show "extension r6 = t"
    by (auto simp add: from_ftp_def split: sum.splits)
next
  assume a: "from_file_path fs p = Inr r7"
  have "FileExtension_of_value s = Inr e \<Longrightarrow> extension_value e = s" for s e
    by (auto simp add: FileExtension_of_value_def all_extensions_def split: if_splits)
  with a show "extension_value (extension r7) = lstrip_dot (path_suffix p)"
    by (auto simp add: from_file_path_def split: option.splits fs_node.splits sum.splits if_splits)
qed

lemma example_requests:
  "requests_get example_http ''http://example.com/notes'' = Inr text_response"
  "requests_get example_http ''http://example.com/a b'' = Inr xml_response"
  by (simp_all add: example_http_def)

lemma example_content_types:
  "get_extension_from_content_type
     (first_field CHR '';'' (headers_get xml_response ''Content-Type'' [])) = None"
  "get_extension_from_content_type
     (first_field CHR '';'' (headers_get text_response ''Content-Type'' [])) = Some TXT"
  "get_extension_from_content_type ''application/xml'' = None"
  by code_simp+

lemma suffix_backup: "FileExtension_members (str_upper (lstrip_dot (path_suffix ''backup.bin''))) = None"
  by code_simp

lemma suffix_notes: "lstrip_dot (path_suffix ''notes.txt'') = ''txt''"
  by code_simp

theorem explicit_tag_wins_witness:
  "from_url example_http ''http://example.com/notes'' (Some PDF)
     = Inr \<lparr>contents = hello, extension = PDF\<rparr> \<and>
   from_s3 example_s3 ''bucket'' ''notes.txt'' (Some PDF)
     = Inr \<lparr>contents = hello, extension = PDF\<rparr> \<and>
   from_azure_blob example_azure ''conn'' ''container'' ''notes.txt'' (Some PDF)
     = Inr \<lparr>contents = hello, extension = PDF\<rparr> \<and>
   from_gcs example_gcs ''bucket'' ''notes.txt'' (Some PDF)
     = Inr \<lparr>contents = hello, extension = PDF\<rparr> \<and>
   from_zip example_zip ''archive.zip'' ''notes.txt'' (Some PDF)
     = Inr \<lparr>contents = hello, extension = PDF\<rparr> \<and>
   from_ftp example_ftp ''host'' ''notes.txt'' [] [] (Some PDF)
     = Inr \<lparr>contents = hello, extension = PDF\<rparr> \<and>
   from_file_path example_fs ''report.txt'' = Inr \<lparr>contents = hello, extension = TXT\<rparr> \<and>
   extension_value TXT = lstrip_dot (path_suffix ''report.txt'')"
proof -
  have 1: "from_url example_http ''http://example.com/notes'' (Some PDF)
     = Inr \<lparr>contents = hello, extension = PDF\<rparr>"
    by (simp add: from_url_def example_requests text_response_def)
  have 2: "from_s3 example_s3 ''bucket'' ''notes.txt'' (Some PDF)
     = Inr \<lparr>contents = hello, extension = PDF\<rparr>"
    by (simp add: from_s3_def example_s3_def)
  have 3: "from_azure_blob example_azure ''conn'' ''container'' ''notes.txt'' (Some PDF)
     = Inr \<lparr>contents = hello, extension = PDF\<rparr>"
    by (simp add: from_azure_blob_def example_azure_def)
  have 4: "from_gcs example_gcs ''bucket'' ''notes.txt'' (Some PDF)
     = Inr \<lparr>contents = hello, extension = PDF\<rparr>"
    by (simp add: from_gcs_def example_gcs_def)
  have 5: "from_zip example_zip ''archive.zip'' ''notes.txt'' (Some PDF)
     = Inr \<lparr>contents = hello, extension = PDF\<rparr>"
    by (simp add: from_zip_def example_zip_def)
  have 6: "from_ftp example_ftp ''host'' ''notes.txt'' [] [] (Some PDF)
     = Inr \<lparr>contents = hello, extension = PDF\<rparr>"
    by (simp add: from_ftp_def example_ftp_def)
  have 7: "from_file_path example_fs ''report.txt'' = Inr \<lparr>contents = hello, extension = TXT\<rparr>"
    by (simp add: from_file_path_def example_fs_def suffix_report FileExtension_of_value_def
        all_extensions_def)
  have "extension_value (extension \<lparr>contents = hello, extension = TXT\<rparr>)
          = lstrip_dot (path_suffix ''report.txt'')"
    using 1 2 3 4 5 6 7
      explicit_tag_wins [of example_http "''http://example.com/notes''" PDF
        "\<lparr>contents = hello, extension = PDF\<rparr>" example_s3 "''bucket''" "''notes.txt''"
        "\<lparr>contents = hello, extension = PDF\<rparr>" example_azure "''conn''" "''container''"
        "''notes.txt''" "\<lparr>contents = hello, extension = PDF\<rparr>" example_gcs "''bucket''"
        "''notes.txt''" "\<lparr>contents = hello, extension = PDF\<rparr>" example_zip "''archive.zip''"
        "''notes.txt''" "\<lparr>contents = hello, extension = PDF\<rparr>" example_ftp "''host''"
        "''notes.txt''" "[]" "[]" "\<lparr>contents = hello, extension = PDF\<rparr>" example_fs
        "''report.txt''" "\<lparr>contents = hello, extension = TXT\<rparr>"]
    by blast
  then show ?thesis using 1 2 3 4 5 6 7 by simp
qed

subsection \<open>Unresolved tags\<close>

text \<open>
  Claim C5. With no explicit tag and a content type that the mapping does not know,
  \<^verbatim>\<open>from_url\<close> returns the response's bytes tagged \<^verbatim>\<open>HTML\<close>, whereas \<^verbatim>\<open>from_s3\<close>,
  for a key whose suffix names no member either, raises \<^verbatim>\<open>ValueError\<close> and returns
  nothing.
\<close>

theorem unresolved_tag_asymmetry:
  "(requests_get H url = Inr resp \<and>
    get_extension_from_content_type
      (first_field CHR '';'' (headers_get resp ''Content-Type'' [])) = None \<longrightarrow>
      from_url H url None = Inr \<lparr>contents = content resp, extension = HTML\<rparr>) \<and>
   (boto3_loader S \<and> boto3_client S = Inr s3 \<and>
    FileExtension_members (str_upper (lstrip_dot (path_suffix key))) = None \<and>
    head_object s3 bucket key = Inr ct \<and>
    get_extension_from_content_type (case ct of None \<Rightarrow> [] | Some c \<Rightarrow> c) = None \<longrightarrow>
      from_s3 S bucket key None = Inl ValueError)"
  by (simp add: from_url_def from_s3_def)

theorem unresolved_tag_asymmetry_witness:
  "from_url example_http ''http://example.com/a b'' None
     = Inr \<lparr>contents = content xml_response, extension = HTML\<rparr> \<and>
   from_s3 example_s3 ''bucket'' ''backup.bin'' None = Inl ValueError"
proof -
  have s: "boto3_loader example_s3"
    "boto3_client example_s3 = Inr \<lparr>head_object = (\<lambda>b k. Inr (Some ''application/xml'')),
                          get_object = (\<lambda>b k. Inr hello)\<rparr>"
    by (simp_all add: example_s3_def)
  have h: "head_object \<lparr>head_object = (\<lambda>b k. Inr (Some ''application/xml'')),
                          get_object = (\<lambda>b k. Inr hello)\<rparr> ''bucket'' ''backup.bin''
             = Inr (Some ''application/xml'')"
    by simp
  have c: "get_extension_from_content_type
             (case Some ''application/xml'' of None \<Rightarrow> [] | Some c \<Rightarrow> c) = None"
    using example_content_types(3) by simp
  show ?thesis
    using example_requests(2) example_content_types(1) s h c suffix_backup
      unresolved_tag_asymmetry [of example_http "''http://example.com/a b''" xml_response
        example_s3 _ "''backup.bin''" "''bucket''" "Some ''application/xml''"]
    by blast
qed

subsection \<open>URL validation\<close>

text \<open>
  Claim C7 is not what the code does. \<^verbatim>\<open>from_url\<close> calls \<^verbatim>\<open>validators.url\<close> and drops
  its answer: for a URL that the validator rejects, here one with a space in it, the
  request is made all the same, and when the server answers, a file is returned.
\<close>

theorem from_url_malformed_url_returns:
  "validators_url example_http ''http://example.com/a b'' = False \<and>
   from_url example_http ''http://example.com/a b'' None
     = Inr \<lparr>contents = bytes_of_ascii ''<a/>'', extension = HTML\<rparr>"
  by (simp add: from_url_def example_requests example_content_types)
    (simp add: example_http_def xml_response_def)

lemma from_url_ignores_validators:
  "from_url (H\<lparr>validators_url := v\<rparr>) url ext = from_url H url ext"
  by (simp add: from_url_def)

subsection \<open>Fire and forget\<close>

text \<open>
  Claim C9. When no event loop is running on the calling thread and the computation
  completes, \<^verbatim>\<open>fire_and_forget\<close> returns after a new loop was made, the computation
  was run to completion on it and the loop was closed: the program state is the one the
  computation left, no loop is running, nothing was queued, and a failure of the
  computation is the failure of the call. When the computation never completes,
  neither does the call.
\<close>

theorem fire_and_forget_no_loop:
  "(\<not> running_loop rt \<and> coro (program_state rt) = Some (res, s') \<longrightarrow>
      fire_and_forget coro rt =
        Some (case res of Inl e \<Rightarrow> Inl e | Inr v \<Rightarrow> Inr (),
              rt\<lparr>program_state := s',
                 loop_trace := loop_trace rt @ [New_loop, Run_until_complete, Close_loop]\<rparr>)) \<and>
   (\<not> running_loop rt \<and> coro (program_state rt) = None \<longrightarrow> fire_and_forget coro rt = None)"
  by (auto simp add: fire_and_forget_def get_running_loop_def asyncio_run_def split: sum.splits)

theorem fire_and_forget_no_loop_witness:
  "\<not> running_loop idle_runtime \<and>
   increment (program_state idle_runtime) = Some (Inr (), 1) \<and>
   fire_and_forget increment idle_runtime =
     Some (Inr (), \<lparr>program_state = 1, running_loop = False, scheduled = [],
                    loop_trace = [New_loop, Run_until_complete, Close_loop]\<rparr>) \<and>
   fire_and_forget (\<lambda>s. None) idle_runtime = None"
proof -
  have 1: "\<not> running_loop idle_runtime" by (simp add: idle_runtime_def)
  have 2: "increment (program_state idle_runtime) = Some (Inr (), 1)"
    by (simp add: idle_runtime_def increment_def)
  have 3: "(\<lambda>s. None) (program_state idle_runtime) = (None :: ((py_error + unit) \<times> nat) option)" by simp
  show ?thesis
    using 1 2 3 fire_and_forget_no_loop [of idle_runtime increment "Inr ()" 1]
      fire_and_forget_no_loop [of idle_runtime "\<lambda>s. None"]
    by (simp add: idle_runtime_def)
qed

subsection \<open>The blocking bridge\<close>

lemma run_sync_blocks_until_completion:
  assumes "current_loop c = Some True" and "on_main_thread c"
  shows "run_sync func c =
           (case func (caller_state c) of
              None \<Rightarrow> None
            | Some (res, s', d) \<Rightarrow>
                Some (if d \<le> 30 then res else Inl TimeoutError,
                      c\<lparr>caller_state := s', elapsed := elapsed c + d,
                        bridge_trace := bridge_trace c @ pool_events (d \<le> 30)\<rparr>))"
  using assms by (simp add: run_sync_def future_result_def split: option.split)

text \<open>
  Claim C8 is not what the code does. On the main thread inside a running loop, a
  computation that is done within the bound gives its result, 42 here, from a new loop
  on a worker thread. But the wait is not bounded by 30 time units: for a computation
  that takes a hundred, \<^verbatim>\<open>run_sync\<close> raises \<^verbatim>\<open>TimeoutError\<close> only after all hundred,
  since leaving the \<^verbatim>\<open>with\<close> block joins the worker; and for a computation that never
  ends it raises nothing and never returns.
\<close>

theorem run_sync_wait_not_bounded:
  "run_sync quick busy_main =
     Some (Inr 42, busy_main\<lparr>caller_state := 1, elapsed := 1,
                              bridge_trace := pool_events True\<rparr>) \<and>
   run_sync slow busy_main =
     Some (Inl TimeoutError, busy_main\<lparr>caller_state := 1, elapsed := 100,
                                       bridge_trace := pool_events False\<rparr>) \<and>
   run_sync endless busy_main = None"
  by (simp add: run_sync_def future_result_def busy_main_def quick_def slow_def endless_def)

end
